theory Spec2Isabelle
  imports Complex_Main "HOL-Library.Word" "HOL-Library.Multiset" "HOL-Library.Sublist"
begin

section \<open>JavaScript values\<close>

text \<open>
  Buffers are lists of bytes. A JavaScript string is represented by the list of its
  UTF-8 bytes, so \<open>Buffer.from(s, 'utf8')\<close> reads the characters off as bytes.
\<close>

type_synonym byte = "8 word"
type_synonym buffer = "byte list"

definition utf8 :: "string \<Rightarrow> buffer" where
  "utf8 s = map of_char s"

text \<open>
  A JavaScript number is NaN, an infinity or a finite value. Finite values are taken as
  reals and arithmetic on them is exact: rounding of doubles is not modelled, and the
  sign of zero is not kept.
\<close>

datatype jsnum = NaN | PosInf | NegInf | Fin real

text \<open>The relational operators \<open><\<close> and \<open>>=\<close>: every comparison with NaN is false.\<close>

fun num_less :: "jsnum \<Rightarrow> jsnum \<Rightarrow> bool" where
  "num_less NaN _ = False"
| "num_less _ NaN = False"
| "num_less PosInf _ = False"
| "num_less _ NegInf = False"
| "num_less NegInf _ = True"
| "num_less _ PosInf = True"
| "num_less (Fin a) (Fin b) = (a < b)"

fun num_ge :: "jsnum \<Rightarrow> jsnum \<Rightarrow> bool" where
  "num_ge NaN _ = False"
| "num_ge _ NaN = False"
| "num_ge a b = (\<not> num_less a b)"

definition num_greater :: "jsnum \<Rightarrow> jsnum \<Rightarrow> bool" where
  "num_greater a b = num_less b a"

text \<open>\<open>Math.round\<close> rounds to the nearest integer, a tie going towards plus infinity.\<close>

fun Math_round :: "jsnum \<Rightarrow> jsnum" where
  "Math_round (Fin x) = Fin (of_int \<lfloor>x + 1 / 2\<rfloor>)"
| "Math_round n = n"

definition Math_min :: "jsnum \<Rightarrow> jsnum \<Rightarrow> jsnum" where
  "Math_min a b = (if a = NaN \<or> b = NaN then NaN else if num_less b a then b else a)"

definition Math_max :: "jsnum \<Rightarrow> jsnum \<Rightarrow> jsnum" where
  "Math_max a b = (if a = NaN \<or> b = NaN then NaN else if num_less a b then b else a)"

text \<open>The operator \<open>+\<close> on two numbers.\<close>

fun num_add :: "jsnum \<Rightarrow> jsnum \<Rightarrow> jsnum" where
  "num_add NaN _ = NaN"
| "num_add _ NaN = NaN"
| "num_add PosInf NegInf = NaN"
| "num_add NegInf PosInf = NaN"
| "num_add PosInf _ = PosInf"
| "num_add _ PosInf = PosInf"
| "num_add NegInf _ = NegInf"
| "num_add _ NegInf = NegInf"
| "num_add (Fin a) (Fin b) = Fin (a + b)"

text \<open>
  A value as a function receives it. The payload of \<open>JSObject\<close> is what the receiving
  function can find in an object: each function below fixes it to the objects of its
  documented parameter type.
\<close>

datatype 'o jsval =
    JSUndefined
  | JSNull
  | JSBool bool
  | JSNum jsnum
  | JSStr string
  | JSFunction
  | JSObject 'o

datatype js_error = TypeError string | Error string


section \<open>RewardEngine (src/token/rewardEngine.js)\<close>

record reward =
  score :: jsnum
  tokens :: int
  category :: string
  reason :: string

definition computeReward :: "'o jsval \<Rightarrow> js_error + reward" where
  "computeReward v =
     (case v of
        JSNum n \<Rightarrow>
          if n = NaN then Inl (TypeError ''computeReward: score must be a valid number'')
          else
            let s = Math_max (Fin 0) (Math_min (Fin 100) (Math_round n)) in
            if num_greater s (Fin 80) then
              Inr \<lparr>score = s, tokens = 5, category = ''High Entropy'',
                   reason = ''Score above 80: highest reward bracket''\<rparr>
            else if num_ge s (Fin 50) then
              Inr \<lparr>score = s, tokens = 3, category = ''Medium Entropy'',
                   reason = ''Score between 50 and 80: medium reward bracket''\<rparr>
            else
              Inr \<lparr>score = s, tokens = 1, category = ''Low Entropy'',
                   reason = ''Score below 50: baseline reward''\<rparr>
      | _ \<Rightarrow> Inl (TypeError ''computeReward: score must be a valid number''))"

text \<open>
  The balances object is a plain object holding one number per miner id. Objects live in
  a store and are passed by reference, so that a write to the caller's object would show.
\<close>

type_synonym ledger = "string \<rightharpoonup> jsnum"
type_synonym store = "ledger list"

definition alloc :: "store \<Rightarrow> ledger \<Rightarrow> store \<times> nat" where
  "alloc h l = (h @ [l], length h)"

text \<open>
  Every object made by an object literal or by \<open>Object.assign({}, ...)\<close> inherits the
  properties of \<open>Object.prototype\<close>.
\<close>

definition Object_prototype_props :: "string list" where
  "Object_prototype_props =
     [''constructor'', ''__defineGetter__'', ''__defineSetter__'', ''hasOwnProperty'',
      ''__lookupGetter__'', ''__lookupSetter__'', ''isPrototypeOf'',
      ''propertyIsEnumerable'', ''toString'', ''valueOf'', ''__proto__'',
      ''toLocaleString'']"

text \<open>
  \<open>Object.assign({}, src)\<close> writes every own property of the source into a fresh object
  with an ordinary assignment. An assignment to \<open>__proto__\<close> runs the inherited setter,
  which ignores a number, so no such own property appears in the copy.
\<close>

definition set_prop :: "ledger \<Rightarrow> string \<Rightarrow> jsnum \<Rightarrow> ledger" where
  "set_prop l k v = (if k = ''__proto__'' then l else l(k \<mapsto> v))"

definition Object_assign_empty :: "ledger \<Rightarrow> ledger" where
  "Object_assign_empty src = (\<lambda>k. if k = ''__proto__'' then None else src k)"

text \<open>
  \<open>Number(obj[k] || 0)\<close>: an own property is the stored number, where NaN and 0 are falsy
  and give 0; an inherited property is a function or \<open>Object.prototype\<close> itself, which is
  truthy and converts to NaN; a missing property is \<open>undefined\<close> and gives 0.
\<close>

definition Number_or_zero :: "ledger \<Rightarrow> string \<Rightarrow> jsnum" where
  "Number_or_zero l k =
     (case l k of
        Some v \<Rightarrow> (if v = NaN \<or> v = Fin 0 then Fin 0 else v)
      | None \<Rightarrow> (if k \<in> set Object_prototype_props then NaN else Fin 0))"

record award =
  updatedBalances :: nat
  awarded :: int
  meta :: reward

text \<open>
  The parameter \<open>balances\<close> has the default \<open>{}\<close>, which JavaScript takes when the
  argument is omitted or \<open>undefined\<close>.
\<close>

definition awardTokensToBalance ::
  "store \<Rightarrow> 'a jsval \<Rightarrow> nat jsval \<Rightarrow> 'b jsval \<Rightarrow> js_error + (store \<times> award)" where
  "awardTokensToBalance h minerId balances_arg score_arg =
     (let (h0, balances) =
            (case balances_arg of
               JSUndefined \<Rightarrow> (let (h', r) = alloc h Map.empty in (h', JSObject r))
             | _ \<Rightarrow> (h, balances_arg))
      in
      case minerId of
        JSStr m \<Rightarrow>
          if length m = 0 then
            Inl (TypeError ''awardTokensToBalance: minerId must be a non-empty string'')
          else
            (case balances of
               JSObject r \<Rightarrow>
                 (case computeReward score_arg of
                    Inl e \<Rightarrow> Inl e
                  | Inr result \<Rightarrow>
                      let (h1, u) = alloc h0 (Object_assign_empty (h0 ! r));
                          prev = Number_or_zero (h1 ! u) m;
                          h2 = h1[u := set_prop (h1 ! u) m
                                         (num_add prev (Fin (of_int (tokens result))))]
                      in Inr (h2, \<lparr>updatedBalances = u, awarded = tokens result,
                                   meta = result\<rparr>))
             | _ \<Rightarrow>
                 Inl (TypeError
                   ''awardTokensToBalance: balances must be an object (or omitted)''))
      | _ \<Rightarrow> Inl (TypeError ''awardTokensToBalance: minerId must be a non-empty string''))"


section \<open>SecureMixer (src/mixer/mixRandomness.js)\<close>

text \<open>Hexadecimal text, as \<open>buf.toString('hex')\<close> writes it and \<open>Buffer.from(s, 'hex')\<close> reads it.\<close>

definition hexChar :: "nat \<Rightarrow> char" where
  "hexChar n = ''0123456789abcdef'' ! n"

definition byteToHex :: "byte \<Rightarrow> string" where
  "byteToHex b = [hexChar (unat b div 16), hexChar (unat b mod 16)]"

definition toHex :: "buffer \<Rightarrow> string" where
  "toHex buf = concat (map byteToHex buf)"

definition isHexChar :: "char \<Rightarrow> bool" where
  "isHexChar c =
     (let n = (of_char c :: nat) in
      (48 \<le> n \<and> n \<le> 57) \<or> (97 \<le> n \<and> n \<le> 102) \<or> (65 \<le> n \<and> n \<le> 70))"

definition hexVal :: "char \<Rightarrow> nat" where
  "hexVal c =
     (let n = (of_char c :: nat) in
      if n \<le> 57 then n - 48 else if 97 \<le> n then n - 87 else n - 55)"

fun Buffer_from_hex :: "string \<Rightarrow> buffer" where
  "Buffer_from_hex (a # b # rest) =
     (if isHexChar a \<and> isHexChar b
      then word_of_nat (16 * hexVal a + hexVal b) # Buffer_from_hex rest
      else [])"
| "Buffer_from_hex _ = []"

text \<open>The regular expression \<open>/^[0-9a-fA-F]+$/\<close>.\<close>

definition hexRegex_test :: "string \<Rightarrow> bool" where
  "hexRegex_test x = (x \<noteq> [] \<and> list_all isHexChar x)"

text \<open>
  The inputs are documented as \<open>Array<Buffer|string>\<close>; for these the JSON fallback of
  \<open>toBuffer\<close> is not taken.
\<close>

datatype mix_item = ItemBuffer buffer | ItemString string

fun toBuffer :: "mix_item \<Rightarrow> buffer" where
  "toBuffer (ItemBuffer x) = x"
| "toBuffer (ItemString x) =
     (if hexRegex_test x \<and> length x mod 2 = 0 then Buffer_from_hex x else utf8 x)"

text \<open>
  \<open>crypto.randomInt(min, max)\<close> returns an integer \<open>n\<close> with \<open>min \<le> n < max\<close>. Its
  entropy is the environment's: \<open>r\<close> is what the generator draws, brought into the range
  the library promises.
\<close>

definition randomInt :: "nat \<Rightarrow> nat \<Rightarrow> nat \<Rightarrow> nat" where
  "randomInt r lo hi = lo + r mod (hi - lo)"

text \<open>
  The Fisher-Yates loop, \<open>i\<close> running from \<open>arr.length - 1\<close> down to 1; \<open>rnd i\<close> is the
  draw of the iteration at index \<open>i\<close>. On an empty array the loop does not run.
\<close>

fun shuffle_loop :: "(nat \<Rightarrow> nat) \<Rightarrow> nat \<Rightarrow> 'a list \<Rightarrow> 'a list" where
  "shuffle_loop rnd 0 arr = arr"
| "shuffle_loop rnd (Suc k) arr =
     (let i = Suc k;
          j = randomInt (rnd i) 0 (i + 1);
          tmp = arr ! i;
          arr1 = arr[i := arr ! j];
          arr2 = arr1[j := tmp]
      in shuffle_loop rnd k arr2)"

definition secureShuffle :: "(nat \<Rightarrow> nat) \<Rightarrow> 'a list \<Rightarrow> 'a list" where
  "secureShuffle rnd buffers = shuffle_loop rnd (length buffers - 1) buffers"

text \<open>
  \<open>node:crypto\<close>'s SHA-256 and SHA-512 are library functions, taken as parameters: a
  function from the bytes hashed to the lowercase hexadecimal digest.
\<close>

type_synonym hash_fn = "buffer \<Rightarrow> string"

definition sha256Hex :: "hash_fn \<Rightarrow> buffer \<Rightarrow> string" where
  "sha256Hex H256 buf = H256 buf"

record mix_opts =
  salt :: "mix_item option"
  roundId :: "string option"
  prevHash :: "mix_item option"

definition no_opts :: mix_opts where
  "no_opts = \<lparr>salt = None, roundId = None, prevHash = None\<rparr>"

record mix_result =
  finalHash :: string
  shuffledHex :: "string list"
  concatenatedHex :: string
  preImageHex :: string

text \<open>Truthiness of an optional field: a Buffer is truthy, a string unless it is empty.\<close>

fun item_truthy :: "mix_item option \<Rightarrow> bool" where
  "item_truthy None = False"
| "item_truthy (Some (ItemBuffer _)) = True"
| "item_truthy (Some (ItemString s)) = (s \<noteq> [])"

definition opt_buffer :: "mix_item option \<Rightarrow> buffer" where
  "opt_buffer x = (if item_truthy x then toBuffer (the x) else [])"

text \<open>The local \<open>shuffled\<close> and the local \<open>concatenated\<close>, the bytes that are hashed.\<close>

definition mix_shuffled :: "(nat \<Rightarrow> nat) \<Rightarrow> mix_item list \<Rightarrow> buffer list" where
  "mix_shuffled rnd inputs = secureShuffle rnd (map toBuffer inputs)"

definition mix_concatenated :: "(nat \<Rightarrow> nat) \<Rightarrow> mix_item list \<Rightarrow> mix_opts \<Rightarrow> buffer" where
  "mix_concatenated rnd inputs opts =
     (let saltBuf = opt_buffer (salt opts);
          roundBuf = (case roundId opts of Some rid \<Rightarrow> toBuffer (ItemString rid) | None \<Rightarrow> []);
          prevBuf = opt_buffer (prevHash opts);
          shuffled = mix_shuffled rnd inputs;
          parts0 = [];
          parts1 = (if length saltBuf > 0 then parts0 @ [saltBuf] else parts0);
          parts2 = (if length roundBuf > 0 then parts1 @ [roundBuf] else parts1);
          parts3 = (if length prevBuf > 0 then parts2 @ [prevBuf] else parts2);
          concatenationParts = parts3 @ shuffled
      in concat concatenationParts)"

text \<open>
  \<open>mixRandomness\<close> is an async function: its result is how the promise it returns
  settles, \<open>Inl\<close> for a rejection. The argument \<open>inputs\<close> is any value; an object is
  either an array of items (\<open>Some\<close>) or an object that is not an array (\<open>None\<close>).
\<close>

definition mixRandomness ::
  "hash_fn \<Rightarrow> (nat \<Rightarrow> nat) \<Rightarrow> mix_item list option jsval \<Rightarrow> mix_opts
     \<Rightarrow> js_error + mix_result" where
  "mixRandomness H256 rnd inputs opts =
     (case inputs of
        JSObject (Some items) \<Rightarrow>
          let shuffled = mix_shuffled rnd items;
              concatenated = mix_concatenated rnd items opts
          in Inr \<lparr>finalHash = sha256Hex H256 concatenated,
                  shuffledHex = map toHex shuffled,
                  concatenatedHex = toHex concatenated,
                  preImageHex = toHex concatenated\<rparr>
      | _ \<Rightarrow> Inl (Error ''inputs must be an array of Buffers or strings''))"


section \<open>CheatDetector (src/detector/cheatDetector.js)\<close>

text \<open>A frequency table keyed by byte value; \<open>(freq[byte] || 0) + 1\<close> counts one more.\<close>

type_synonym freq = "byte \<rightharpoonup> nat"

definition bump :: "freq \<Rightarrow> byte \<Rightarrow> freq" where
  "bump f b = f(b \<mapsto> (case f b of None \<Rightarrow> 0 | Some c \<Rightarrow> c) + 1)"

text \<open>\<open>Object.values\<close> lists the values of integer keys in ascending key order.\<close>

definition Object_values :: "freq \<Rightarrow> nat list" where
  "Object_values f = List.map_filter f (map word_of_nat [0..<256])"

definition calculateEntropy :: "buffer \<Rightarrow> real" where
  "calculateEntropy buffer =
     (let freq = fold (\<lambda>byte f. bump f byte) buffer Map.empty;
          total = length buffer
      in fold (\<lambda>count entropy.
                 let p = real count / real total in entropy - p * log 2 p)
              (Object_values freq) 0)"

text \<open>
  \<open>bufferSimilarity\<close> is called on two Buffers, which are truthy, so its first guard
  does not fire. With an empty buffer \<open>same / len\<close> is \<open>0 / 0\<close>, which is NaN.
\<close>

definition bufferSimilarity :: "buffer \<Rightarrow> buffer \<Rightarrow> jsnum" where
  "bufferSimilarity buf1 buf2 =
     (let len = min (length buf1) (length buf2);
          same = length (filter (\<lambda>i. buf1 ! i = buf2 ! i) [0..<len])
      in if len = 0 then NaN else Fin ((real same / real len) * 100))"

text \<open>The count a frequency table holds for a byte.\<close>

definition cnt :: "freq \<Rightarrow> byte \<Rightarrow> nat" where
  "cnt f b = (case f b of None \<Rightarrow> 0 | Some c \<Rightarrow> c)"

record cheat_result =
  cheated :: bool
  cheat_reason :: "string option"

text \<open>
  The repetition loop: \<open>True\<close> when it returns from inside the loop, \<open>n\<close> being
  \<open>currentRandomness.length\<close>.
\<close>

fun repetition_loop :: "nat \<Rightarrow> freq \<Rightarrow> buffer \<Rightarrow> bool" where
  "repetition_loop n repetitions [] = False"
| "repetition_loop n repetitions (byte # rest) =
     (let repetitions' = bump repetitions byte in
      if real (the (repetitions' byte)) > real n * 0.5 then True
      else repetition_loop n repetitions' rest)"

text \<open>\<open>Number.prototype.toFixed\<close> is a library function, taken as a parameter.\<close>

fun num_toFixed :: "(real \<Rightarrow> nat \<Rightarrow> string) \<Rightarrow> jsnum \<Rightarrow> nat \<Rightarrow> string" where
  "num_toFixed toFixed (Fin x) d = toFixed x d"
| "num_toFixed toFixed NaN d = ''NaN''"
| "num_toFixed toFixed PosInf d = ''Infinity''"
| "num_toFixed toFixed NegInf d = ''-Infinity''"

definition entropy_check :: "(real \<Rightarrow> nat \<Rightarrow> string) \<Rightarrow> buffer \<Rightarrow> cheat_result" where
  "entropy_check toFixed currentRandomness =
     (let entropy = calculateEntropy currentRandomness in
      if entropy < 4.0 then
        \<lparr>cheated = True,
         cheat_reason = Some (''Entropy too low ('' @ toFixed entropy 2 @ '')'')\<rparr>
      else \<lparr>cheated = False, cheat_reason = None\<rparr>)"

text \<open>The previous round's buffer is a Buffer or \<open>null\<close>, the default.\<close>

definition detectCheating ::
  "(real \<Rightarrow> nat \<Rightarrow> string) \<Rightarrow> buffer \<Rightarrow> buffer option \<Rightarrow> cheat_result" where
  "detectCheating toFixed currentRandomness previousRandomness =
     (if repetition_loop (length currentRandomness) Map.empty currentRandomness then
        \<lparr>cheated = True,
         cheat_reason = Some ''Too many repeated values (low randomness)''\<rparr>
      else
        case previousRandomness of
          Some previous \<Rightarrow>
            let similarity = bufferSimilarity currentRandomness previous in
            if num_greater similarity (Fin 85) then
              \<lparr>cheated = True,
               cheat_reason = Some (''Randomness is suspiciously similar to previous round (''
                                    @ num_toFixed toFixed similarity 2 @ ''%)'')\<rparr>
            else entropy_check toFixed currentRandomness
        | None \<Rightarrow> entropy_check toFixed currentRandomness)"


section \<open>UniquenessScorer (src/scoring/uniquenessScore.js)\<close>

text \<open>
  A contribution is any value; an object is a Buffer, an array or some other object.
  \<open>Buffer.from(array)\<close> is a library function, taken as a parameter.
\<close>

datatype uobj = UBuffer buffer | UArray "uobj jsval list" | UPlain

type_synonym from_array = "uobj jsval list \<Rightarrow> buffer"

definition score_toBuffer :: "from_array \<Rightarrow> uobj jsval \<Rightarrow> js_error + buffer" where
  "score_toBuffer Buffer_from x =
     (case x of
        JSObject (UBuffer b) \<Rightarrow> Inr b
      | JSStr s \<Rightarrow> Inr (utf8 s)
      | JSObject (UArray a) \<Rightarrow> Inr (Buffer_from a)
      | _ \<Rightarrow> Inl (TypeError ''Input must be Buffer, string, or byte array''))"

text \<open>\<open>arr.map(f)\<close> where \<open>f\<close> may throw: the first element that throws ends the map.\<close>

fun map_throw :: "('a \<Rightarrow> js_error + 'b) \<Rightarrow> 'a list \<Rightarrow> js_error + 'b list" where
  "map_throw f [] = Inr []"
| "map_throw f (x # xs) =
     (case f x of
        Inl e \<Rightarrow> Inl e
      | Inr y \<Rightarrow> (case map_throw f xs of Inl e \<Rightarrow> Inl e | Inr ys \<Rightarrow> Inr (y # ys)))"

definition concatBuffers :: "from_array \<Rightarrow> uobj jsval list \<Rightarrow> js_error + buffer" where
  "concatBuffers Buffer_from arr =
     (case map_throw (score_toBuffer Buffer_from) arr of
        Inl e \<Rightarrow> Inl e
      | Inr buffers \<Rightarrow> Inr (concat buffers))"

text \<open>
  The table \<open>freq\<close> of 256 counters, indexed by byte value (a buffer is shorter than
  \<open>2^32\<close> bytes, so a counter does not wrap).
\<close>

definition byte_freq :: "buffer \<Rightarrow> nat \<Rightarrow> nat" where
  "byte_freq buf = fold (\<lambda>b freq. freq(unat b := freq (unat b) + 1)) buf (\<lambda>_. 0)"

definition shannonEntropyBits :: "buffer \<Rightarrow> real" where
  "shannonEntropyBits buf =
     (if length buf = 0 then 0
      else
        let freq = byte_freq buf;
            len = length buf
        in fold (\<lambda>i ent.
                   let f = freq i in
                   if f = 0 then ent
                   else let p = real f / real len in ent - p * log 2 p)
                [0..<256] 0)"

text \<open>The population count table, filled by the loop that shifts \<open>v\<close> right until it is 0.\<close>

function popcnt_loop :: "nat \<Rightarrow> nat \<Rightarrow> nat" where
  "popcnt_loop v c = (if v = 0 then c else popcnt_loop (v div 2) (c + v mod 2))"
  by pat_completeness auto
termination
  by (relation "measure (\<lambda>(v, c). v)") auto

definition POPCNT_TABLE :: "nat list" where
  "POPCNT_TABLE = map (\<lambda>i. popcnt_loop i 0) [0..<256]"

definition popcnt8 :: "byte \<Rightarrow> nat" where
  "popcnt8 x = POPCNT_TABLE ! unat (and x 0xff)"

definition normalizedBitSimilarity ::
  "from_array \<Rightarrow> buffer \<Rightarrow> uobj jsval \<Rightarrow> js_error + real" where
  "normalizedBitSimilarity Buffer_from bufA bufB =
     (case score_toBuffer Buffer_from bufB of
        Inl e \<Rightarrow> Inl e
      | Inr b \<Rightarrow>
          let a = bufA;
              len = min (length a) (length b)
          in if len = 0 then Inr 0
             else
               let diffBits = fold (\<lambda>i d. d + popcnt8 (xor (a ! i) (b ! i))) [0..<len] 0;
                   totalBits = len * 8;
                   hamming = real diffBits / real totalBits
               in Inr (1 - hamming))"

text \<open>
  \<open>blockEntropies\<close> steps through the buffer by \<open>blockSize\<close>, which is 32 at its only
  call; with a block size of 0 the source's loop would not end, and the model stops.
\<close>

function blockEntropies_from :: "buffer \<Rightarrow> nat \<Rightarrow> nat \<Rightarrow> real list" where
  "blockEntropies_from buf blockSize i =
     (if i < length buf \<and> 0 < blockSize
      then shannonEntropyBits (take blockSize (drop i buf))
             # blockEntropies_from buf blockSize (i + blockSize)
      else [])"
  by pat_completeness auto
termination
  by (relation "measure (\<lambda>(buf, blockSize, i). length buf - i)") auto

definition blockEntropies :: "buffer \<Rightarrow> nat \<Rightarrow> real list" where
  "blockEntropies buf blockSize = blockEntropies_from buf blockSize 0"

definition mean :: "real list \<Rightarrow> real" where
  "mean arr = (if length arr = 0 then 0 else fold (\<lambda>v s. s + v) arr 0 / real (length arr))"

definition stddev :: "real list \<Rightarrow> real" where
  "stddev arr =
     (if length arr = 0 then 0
      else
        let m = mean arr;
            v = fold (\<lambda>x s. s + (x - m) * (x - m)) arr 0 / real (length arr)
        in sqrt v)"

record weights =
  w_entropy :: "real option"
  w_nonRepeat :: "real option"
  w_amount :: "real option"
  w_variation :: "real option"

definition empty_weights :: weights where
  "empty_weights = \<lparr>w_entropy = None, w_nonRepeat = None, w_amount = None, w_variation = None\<rparr>"

definition defaultWeights :: weights where
  "defaultWeights = \<lparr>w_entropy = Some 0.4, w_nonRepeat = Some 0.25, w_amount = Some 0.2,
                     w_variation = Some 0.15\<rparr>"

text \<open>\<open>Object.assign({}, a, b)\<close>: a property of \<open>b\<close> replaces the one of \<open>a\<close>.\<close>

definition assign_weights :: "weights \<Rightarrow> weights \<Rightarrow> weights" where
  "assign_weights a b =
     \<lparr>w_entropy = (case w_entropy b of Some x \<Rightarrow> Some x | None \<Rightarrow> w_entropy a),
      w_nonRepeat = (case w_nonRepeat b of Some x \<Rightarrow> Some x | None \<Rightarrow> w_nonRepeat a),
      w_amount = (case w_amount b of Some x \<Rightarrow> Some x | None \<Rightarrow> w_amount a),
      w_variation = (case w_variation b of Some x \<Rightarrow> Some x | None \<Rightarrow> w_variation a)\<rparr>"

text \<open>
  The options: \<open>previousRounds\<close> is \<open>None\<close> when it is not an array, \<open>maxBits\<close> and
  \<open>weights\<close> are \<open>None\<close> when absent.
\<close>

record score_options =
  previousRounds :: "uobj jsval list option"
  maxBits :: "real option"
  opt_weights :: "weights option"

definition default_options :: score_options where
  "default_options = \<lparr>previousRounds = None, maxBits = None, opt_weights = None\<rparr>"

record breakdown =
  entropyPerByte :: "real option"
  entropyBitsTotal :: "int option"
  entropyNorm :: real
  amountBits :: "nat option"
  amountNorm :: real
  variationCov :: "real option"
  variationNorm :: real
  nonRepeatNorm :: real
  bd_weights :: weights

record uniqueness =
  u_score :: int
  u_category :: string
  u_breakdown :: breakdown

text \<open>
  \<open>Number(x.toFixed(4))\<close> is the library's rounding to four decimals, the parameter
  \<open>fix4\<close>. Weights and sub-scores are finite numbers.
\<close>

definition computeUniquenessScore ::
  "from_array \<Rightarrow> (real \<Rightarrow> real) \<Rightarrow> uobj jsval \<Rightarrow> score_options \<Rightarrow> js_error + uniqueness" where
  "computeUniquenessScore Buffer_from fix4 allRandomness options =
     (let inputs0 = (case allRandomness of JSObject (UArray a) \<Rightarrow> a | _ \<Rightarrow> [allRandomness]);
          inputs = filter (\<lambda>x. x \<noteq> JSNull \<and> x \<noteq> JSUndefined) inputs0
      in
      if length inputs = 0 then
        Inr \<lparr>u_score = 0, u_category = ''Low'',
             u_breakdown = \<lparr>entropyPerByte = None, entropyBitsTotal = None, entropyNorm = 0,
                            amountBits = None, amountNorm = 0, variationCov = None,
                            variationNorm = 0, nonRepeatNorm = 0,
                            bd_weights = empty_weights\<rparr>\<rparr>
      else
        case map_throw (score_toBuffer Buffer_from) inputs of
          Inl e \<Rightarrow> Inl e
        | Inr buffers \<Rightarrow>
        (case concatBuffers Buffer_from (map (\<lambda>b. JSObject (UBuffer b)) buffers) of
          Inl e \<Rightarrow> Inl e
        | Inr buf \<Rightarrow>
          let previous = (case previousRounds options of Some a \<Rightarrow> a | None \<Rightarrow> []);
              maxBitsV = (case maxBits options of
                            Some m \<Rightarrow> (if m = 0 then 2048 else m) | None \<Rightarrow> 2048);
              wts = assign_weights defaultWeights
                      (case opt_weights options of Some w \<Rightarrow> w | None \<Rightarrow> empty_weights);
              entropyPerByteV = shannonEntropyBits buf;
              entropyBitsTotalV = entropyPerByteV * real (length buf);
              entropyNormV = min (entropyPerByteV / 8) 1;
              totalBits = length buf * 8;
              amountNormV = min (real totalBits / maxBitsV) 1;
              blockSize = 32;
              blockEnt = blockEntropies buf blockSize;
              meanBlockEnt = mean blockEnt;
              sdBlockEnt = stddev blockEnt;
              cov = (if meanBlockEnt > 0.0001 then sdBlockEnt / meanBlockEnt else 0);
              variationNormV = min (cov / 0.5) 1;
              nonRepeatNormV =
                (if length previous > 0 then
                   let maxSim =
                         fold (\<lambda>prev maxSim.
                                 case normalizedBitSimilarity Buffer_from buf prev of
                                   Inr sim \<Rightarrow> (if sim > maxSim then sim else maxSim)
                                 | Inl e \<Rightarrow> maxSim)
                              previous 0
                   in max 0 (1 - maxSim)
                 else 1);
              combined = entropyNormV * the (w_entropy wts)
                       + nonRepeatNormV * the (w_nonRepeat wts)
                       + amountNormV * the (w_amount wts)
                       + variationNormV * the (w_variation wts);
              scoreFloat = max 0 (min 1 combined);
              scoreV = \<lfloor>scoreFloat * 100 + 1 / 2\<rfloor>;
              categoryV = (if scoreV \<ge> 85 then ''High Entropy''
                           else if scoreV \<ge> 65 then ''Moderate-High''
                           else if scoreV \<ge> 40 then ''Moderate''
                           else ''Low'')
          in Inr \<lparr>u_score = scoreV, u_category = categoryV,
                  u_breakdown =
                    \<lparr>entropyPerByte = Some (fix4 entropyPerByteV),
                     entropyBitsTotal = Some \<lfloor>entropyBitsTotalV + 1 / 2\<rfloor>,
                     entropyNorm = fix4 entropyNormV,
                     amountBits = Some totalBits,
                     amountNorm = fix4 amountNormV,
                     variationCov = Some (fix4 cov),
                     variationNorm = fix4 variationNormV,
                     nonRepeatNorm = fix4 nonRepeatNormV,
                     bd_weights = wts\<rparr>\<rparr>))"


section \<open>Hash helpers (src/utils/hash.js)\<close>

text \<open>
  The input of a hash helper is any value; an object is a Buffer, a \<open>Uint8Array\<close> or an
  array of bytes (\<open>Some\<close> of its bytes) or some other object (\<open>None\<close>).
\<close>

definition hash_toBuffer :: "buffer option jsval \<Rightarrow> js_error + buffer" where
  "hash_toBuffer input =
     (case input of
        JSObject (Some b) \<Rightarrow> Inr b
      | JSStr s \<Rightarrow> Inr (utf8 s)
      | _ \<Rightarrow> Inl (TypeError ''Unsupported input type for hashing''))"

definition sha256 :: "hash_fn \<Rightarrow> buffer option jsval \<Rightarrow> js_error + string" where
  "sha256 H256 input =
     (case hash_toBuffer input of Inl e \<Rightarrow> Inl e | Inr buf \<Rightarrow> Inr (H256 buf))"

text \<open>
  The module exports \<open>sha256\<close>, \<open>blake2b\<close>, \<open>keccak256\<close> and \<open>hashAll\<close>, and nothing
  else.
\<close>

definition hash_exports :: "string list" where
  "hash_exports = [''sha256'', ''blake2b'', ''keccak256'', ''hashAll'']"


section \<open>RoundOrchestrator (src/index.js)\<close>

text \<open>\<open>bufferToHex\<close> on a Buffer, and \<open>.padEnd(64, '0').slice(0, 64)\<close>.\<close>

definition bufferToHex :: "buffer \<Rightarrow> string" where
  "bufferToHex buf = toHex buf"

definition padEnd_slice64 :: "string \<Rightarrow> string" where
  "padEnd_slice64 s = take 64 (s @ replicate (64 - length s) (CHR ''0''))"

text \<open>
  What one run takes from its environment: the clock (round id and timestamp), the
  variable \<open>PREV_ROUND_HASH\<close>, the four buffers the collectors deliver, the secret drawn
  by \<open>crypto.randomBytes(32)\<close> in hexadecimal, and the draws of the shuffle.
\<close>

record round_env =
  env_roundId :: string
  env_prevRoundHash :: string
  env_timestamp :: string
  mouseBuf :: buffer
  keyboardBuf :: buffer
  cpuBuf :: buffer
  cryptoBuf :: buffer
  env_s_i :: string
  env_rnd :: "nat \<Rightarrow> nat"

text \<open>
  A member of an imported module namespace is a function or is missing. The members that
  \<open>runRound\<close> uses and the modules of this repository do not export: \<open>sha512\<close> is not
  among the exports of hash.js, and rewardEngine.js exports \<open>computeReward\<close> and
  \<open>awardTokensToBalance\<close> only, no \<open>allocate\<close> and no default.
\<close>

record round_modules =
  hashUtils_sha512 :: "(string \<Rightarrow> js_error + string) option"
  rewardEngine_allocate :: "(int \<Rightarrow> int) option"
  rewardEngine_default :: "(int \<Rightarrow> int) option"

definition repo_modules :: round_modules where
  "repo_modules = \<lparr>hashUtils_sha512 = None, rewardEngine_allocate = None,
                    rewardEngine_default = None\<rparr>"

text \<open>The commitment (lines 115-116) and its local verification (lines 120-121).\<close>

definition buildCommit :: "hash_fn \<Rightarrow> string \<Rightarrow> string \<Rightarrow> string \<Rightarrow> js_error + string" where
  "buildCommit H256 E_i s_i rid = (let commitInput = E_i @ s_i @ rid in sha256 H256 (JSStr commitInput))"

definition verifyCommit :: "hash_fn \<Rightarrow> string \<Rightarrow> string \<Rightarrow> string \<Rightarrow> string \<Rightarrow> bool" where
  "verifyCommit H256 commit E_i s_i rid =
     (case sha256 H256 (JSStr (E_i @ s_i @ rid)) of
        Inr recomputed \<Rightarrow> \<not> (recomputed \<noteq> commit)
      | Inl e \<Rightarrow> False)"


text \<open>
  The call of the mixer (lines 137-139): the previous round's hash and the round id are
  the first two elements of the inputs array, and no options are passed. The value is
  the promise the async function returns.
\<close>

definition round_mix ::
  "hash_fn \<Rightarrow> (nat \<Rightarrow> nat) \<Rightarrow> string \<Rightarrow> string \<Rightarrow> string list \<Rightarrow> js_error + mix_result" where
  "round_mix H256 rnd prevRoundHash rid E_list =
     (let mixInputArray = [ItemString prevRoundHash, ItemString rid] @ map ItemString E_list
      in mixRandomness H256 rnd (JSObject (Some mixInputArray)) no_opts)"

text \<open>A promise has no method \<open>slice\<close>, so calling it throws.\<close>

definition promise_slice :: "js_error + mix_result \<Rightarrow> js_error + string" where
  "promise_slice p = Inl (TypeError ''roundSeed.slice is not a function'')"

record round_record =
  round_id :: string
  prev_root_hash :: string
  timestamp :: string
  reveals :: "(string \<times> string) list"
  R_round :: "js_error + mix_result"
  rec_awarded :: int

text \<open>
  Lines 142-171. The cheat detector's verdict is only logged. The score is that of
  \<open>uniquenessScore.evaluate\<close>, the tokens those of \<open>rewardEngine.allocate\<close>, else of the
  default export, else 0.
\<close>

definition finishRound ::
  "round_modules \<Rightarrow> from_array \<Rightarrow> (real \<Rightarrow> real) \<Rightarrow> round_env \<Rightarrow> string \<Rightarrow> string
     \<Rightarrow> js_error + mix_result \<Rightarrow> js_error + round_record option" where
  "finishRound ms Buffer_from fix4 env E_i commit roundSeed =
     (let E_list = [E_i] in
      case computeUniquenessScore Buffer_from fix4
             (JSObject (UArray (map JSStr E_list))) default_options of
        Inl e \<Rightarrow> Inl e
      | Inr scoreResult \<Rightarrow>
          let tokensAwarded =
                (case rewardEngine_allocate ms of
                   Some allocate \<Rightarrow> allocate (u_score scoreResult)
                 | None \<Rightarrow>
                     (case rewardEngine_default ms of
                        Some dflt \<Rightarrow> dflt (u_score scoreResult)
                      | None \<Rightarrow> 0))
          in Inr (Some \<lparr>round_id = env_roundId env,
                        prev_root_hash = env_prevRoundHash env,
                        timestamp = env_timestamp env,
                        reveals = [(''local-node-0'', commit)],
                        R_round = roundSeed,
                        rec_awarded = tokensAwarded\<rparr>))"

text \<open>
  \<open>runRound\<close> from the point where the collectors have delivered. \<open>Inl\<close> is an exception
  (the promise of \<open>runRound\<close> rejects), \<open>Inr None\<close> is the \<open>return\<close> without a record
  after a failed verification, \<open>Inr (Some r)\<close> the round record.
\<close>

definition runRound_with ::
  "round_modules \<Rightarrow> hash_fn \<Rightarrow> from_array \<Rightarrow> (real \<Rightarrow> real) \<Rightarrow> round_env
     \<Rightarrow> js_error + round_record option" where
  "runRound_with ms H256 Buffer_from fix4 env =
     (let collected = map (\<lambda>b. padEnd_slice64 (bufferToHex b))
                          [mouseBuf env, keyboardBuf env, cpuBuf env, cryptoBuf env];
          concatenatedHex = concat collected
      in
      case hashUtils_sha512 ms of
        None \<Rightarrow> Inl (TypeError ''hashUtils.sha512 is not a function'')
      | Some sha512 \<Rightarrow>
      (case sha512 concatenatedHex of
        Inl e \<Rightarrow> Inl e
      | Inr E_i \<Rightarrow>
      (case buildCommit H256 E_i (env_s_i env) (env_roundId env) of
        Inl e \<Rightarrow> Inl e
      | Inr commit \<Rightarrow>
          if \<not> verifyCommit H256 commit E_i (env_s_i env) (env_roundId env) then Inr None
          else
            let E_list = [E_i];
                roundSeed = round_mix H256 (env_rnd env) (env_prevRoundHash env)
                              (env_roundId env) E_list
            in (case promise_slice roundSeed of
                  Inl e \<Rightarrow> Inl e
                | Inr seedPrefix \<Rightarrow>
                    finishRound ms Buffer_from fix4 env E_i commit roundSeed))))"

definition runRound ::
  "hash_fn \<Rightarrow> from_array \<Rightarrow> (real \<Rightarrow> real) \<Rightarrow> round_env \<Rightarrow> js_error + round_record option" where
  "runRound = runRound_with repo_modules"


section \<open>Properties of the RewardEngine\<close>

lemma clamp_of_int:
  "Math_max (Fin 0) (Math_min (Fin 100) (Fin (of_int k)))
     = Fin (of_int (max 0 (min 100 k)))"
  by (simp add: Math_max_def Math_min_def max_def min_def)

text \<open>On a finite score the result is given by the integer clamp of the rounded score.\<close>

lemma computeReward_Fin:
  "computeReward (JSNum (Fin x)) =
     (let c = max 0 (min 100 \<lfloor>x + 1 / 2\<rfloor>) in
      Inr \<lparr>score = Fin (of_int c),
           tokens = (if c > 80 then 5 else if 50 \<le> c then 3 else 1),
           category = (if c > 80 then ''High Entropy''
                       else if 50 \<le> c then ''Medium Entropy'' else ''Low Entropy''),
           reason = (if c > 80 then ''Score above 80: highest reward bracket''
                     else if 50 \<le> c then ''Score between 50 and 80: medium reward bracket''
                     else ''Score below 50: baseline reward'')\<rparr>)"
  unfolding computeReward_def jsval.case Math_round.simps clamp_of_int
  by (simp add: num_greater_def Let_def)

lemma computeReward_invalid:
  "(\<forall>n. v \<noteq> JSNum n) \<or> v = JSNum NaN \<Longrightarrow>
     computeReward v = Inl (TypeError ''computeReward: score must be a valid number'')"
  by (cases v) (auto simp: computeReward_def)

lemma computeReward_tokens:
  "n \<noteq> NaN \<Longrightarrow> \<exists>r. computeReward (JSNum n) = Inr r \<and> tokens r \<in> {1, 3, 5}"
  by (cases n) (auto simp: computeReward_def Let_def)

text \<open>
  Claim C3. For every score that is a number and not NaN, \<open>computeReward\<close> clamps the
  rounded score to an integer \<open>c\<close> of the range 0 to 100 (the infinities go to 100 and
  to 0) and awards 5 tokens when \<open>c > 80\<close>, 3 tokens when \<open>50 \<le> c \<le> 80\<close> and 1 token
  when \<open>c < 50\<close>. The scores 81, 80, 49, 150 and -10 earn 5, 3, 1, 5 and 1 tokens.
\<close>

theorem computeReward_brackets:
  assumes "n \<noteq> NaN"
  shows "(\<exists>c::int. 0 \<le> c \<and> c \<le> 100
            \<and> (\<forall>x. n = Fin x \<longrightarrow> c = max 0 (min 100 \<lfloor>x + 1 / 2\<rfloor>))
            \<and> (n = PosInf \<longrightarrow> c = 100) \<and> (n = NegInf \<longrightarrow> c = 0)
            \<and> (\<exists>r. computeReward (JSNum n :: 'o jsval) = Inr r \<and> score r = Fin (of_int c)
                   \<and> tokens r = (if 80 < c then 5 else if 50 \<le> c then 3 else 1)))
         \<and> map_sum id tokens (computeReward (JSNum (Fin 81) :: 'o jsval)) = Inr 5
         \<and> map_sum id tokens (computeReward (JSNum (Fin 80) :: 'o jsval)) = Inr 3
         \<and> map_sum id tokens (computeReward (JSNum (Fin 49) :: 'o jsval)) = Inr 1
         \<and> map_sum id tokens (computeReward (JSNum (Fin 150) :: 'o jsval)) = Inr 5
         \<and> map_sum id tokens (computeReward (JSNum (Fin (- 10)) :: 'o jsval)) = Inr 1"
proof -
  have general: "\<exists>c::int. 0 \<le> c \<and> c \<le> 100
            \<and> (\<forall>x. n = Fin x \<longrightarrow> c = max 0 (min 100 \<lfloor>x + 1 / 2\<rfloor>))
            \<and> (n = PosInf \<longrightarrow> c = 100) \<and> (n = NegInf \<longrightarrow> c = 0)
            \<and> (\<exists>r. computeReward (JSNum n :: 'o jsval) = Inr r \<and> score r = Fin (of_int c)
                   \<and> tokens r = (if 80 < c then 5 else if 50 \<le> c then 3 else 1))"
  proof (cases n)
    case NaN
    with assms show ?thesis by simp
  next
    case PosInf
    then show ?thesis
      by (simp add: computeReward_def Math_max_def Math_min_def num_greater_def)
  next
    case NegInf
    then show ?thesis
      by (simp add: computeReward_def Math_max_def Math_min_def num_greater_def)
  next
    case (Fin x)
    then show ?thesis
      by (simp add: computeReward_Fin Let_def)
  qed
  have instances:
    "map_sum id tokens (computeReward (JSNum (Fin 81) :: 'o jsval)) = Inr 5"
    "map_sum id tokens (computeReward (JSNum (Fin 80) :: 'o jsval)) = Inr 3"
    "map_sum id tokens (computeReward (JSNum (Fin 49) :: 'o jsval)) = Inr 1"
    "map_sum id tokens (computeReward (JSNum (Fin 150) :: 'o jsval)) = Inr 5"
    "map_sum id tokens (computeReward (JSNum (Fin (- 10)) :: 'o jsval)) = Inr 1"
    by (simp_all add: computeReward_Fin Let_def)
  from general instances show ?thesis by blast
qed

theorem computeReward_brackets_witness:
  "\<exists>r. computeReward (JSNum (Fin 80.5) :: unit jsval) = Inr r
     \<and> score r = Fin 81 \<and> tokens r = 5"
proof -
  have "Fin 80.5 \<noteq> NaN" by simp
  from computeReward_brackets [OF this, where ?'o = unit]
  obtain c :: int and r where
    c: "\<forall>x. Fin 80.5 = Fin x \<longrightarrow> c = max 0 (min 100 \<lfloor>x + 1 / 2\<rfloor>)"
    and r: "computeReward (JSNum (Fin 80.5) :: unit jsval) = Inr r"
      "score r = Fin (of_int c)"
      "tokens r = (if 80 < c then 5 else if 50 \<le> c then 3 else 1)"
    by blast
  from c have "c = max 0 (min 100 \<lfloor>(80.5::real) + 1 / 2\<rfloor>)" by blast
  then have "c = 81" by simp
  with r show ?thesis by simp
qed

text \<open>
  The regular case of \<open>awardTokensToBalance\<close>: with an allocated balances object, a
  non-empty miner id and a valid score, every object of the store stays as it was, the
  snapshot is a new object, every other miner's entry is copied, and a miner id that names
  no inherited property gets the previous balance (0 when absent or falsy) plus the award.
\<close>

lemma awardTokensToBalance_snapshot:
  assumes "m \<noteq> []" and "r < length h" and "computeReward sc = Inr res"
  shows "\<exists>h' a. awardTokensToBalance h (JSStr m) (JSObject r) sc = Inr (h', a)
           \<and> take (length h) h' = h \<and> length h' = Suc (length h)
           \<and> updatedBalances a = length h \<and> awarded a = tokens res \<and> meta a = res
           \<and> (\<forall>k. k \<noteq> m \<longrightarrow> k \<noteq> ''__proto__''
                  \<longrightarrow> (h' ! updatedBalances a) k = (h ! r) k)
           \<and> (m \<notin> set Object_prototype_props \<longrightarrow>
                  (h' ! updatedBalances a) m
                    = Some (num_add (case (h ! r) m of
                                       None \<Rightarrow> Fin 0
                                     | Some v \<Rightarrow> (if v = NaN \<or> v = Fin 0 then Fin 0 else v))
                                    (Fin (of_int (tokens res)))))"
  using assms
  by (auto simp: awardTokensToBalance_def alloc_def Let_def nth_append set_prop_def
        Object_assign_empty_def Number_or_zero_def Object_prototype_props_def
      split: option.splits)

lemma awardTokensToBalance_minerId:
  "(\<forall>m. minerId = JSStr m \<longrightarrow> m = []) \<Longrightarrow>
     awardTokensToBalance h minerId b s
       = Inl (TypeError ''awardTokensToBalance: minerId must be a non-empty string'')"
  by (cases minerId; cases b) (auto simp: awardTokensToBalance_def alloc_def Let_def)

lemma awardTokensToBalance_balances:
  "b \<noteq> JSUndefined \<Longrightarrow> (\<forall>r. b \<noteq> JSObject r) \<Longrightarrow>
     \<exists>e. awardTokensToBalance h minerId b s = Inl (TypeError e)"
  by (cases minerId; cases b) (auto simp: awardTokensToBalance_def alloc_def Let_def)

text \<open>
  Claim C9, at the miner id \<open>toString\<close> with an empty balances object and the score 90:
  5 tokens are awarded and the caller's object is untouched, but the balance stored for
  the miner is NaN, not 0 + 5, because the lookup of the previous balance finds the
  inherited method.
\<close>

theorem awardTokensToBalance_inherited_name:
  "\<exists>h' a. awardTokensToBalance [Map.empty] (JSStr ''toString'' :: unit jsval) (JSObject 0)
              (JSNum (Fin 90) :: unit jsval) = Inr (h', a)
     \<and> awarded a = 5
     \<and> h' ! 0 = Map.empty
     \<and> (h' ! updatedBalances a) ''toString'' = Some NaN
     \<and> (h' ! updatedBalances a) ''toString'' \<noteq> Some (num_add (Fin 0) (Fin 5))"
  by (simp add: awardTokensToBalance_def alloc_def computeReward_Fin Let_def
       Object_assign_empty_def Number_or_zero_def Object_prototype_props_def set_prop_def)


section \<open>Properties of the SecureMixer\<close>

lemma mixRandomness_not_array:
  "(\<forall>items. inputs \<noteq> JSObject (Some items)) \<Longrightarrow>
     mixRandomness H256 rnd inputs opts
       = Inl (Error ''inputs must be an array of Buffers or strings'')"
  by (cases inputs) (auto simp: mixRandomness_def split: option.splits)

text \<open>
  Claim C8, as amended. \<open>computeReward\<close> throws a TypeError for every score that is not a
  number or is NaN; \<open>awardTokensToBalance\<close> throws a TypeError for every miner id that is
  not a non-empty string, and for every balances value that is neither an object nor
  \<open>undefined\<close>; \<open>mixRandomness\<close> rejects with an Error for every inputs value that is not
  an array.
\<close>

theorem input_errors_rejected:
  "((\<forall>n. v \<noteq> JSNum n) \<or> v = JSNum NaN \<longrightarrow>
      computeReward v = Inl (TypeError ''computeReward: score must be a valid number''))
   \<and> ((\<forall>m. minerId = JSStr m \<longrightarrow> m = []) \<longrightarrow>
      awardTokensToBalance h minerId b sc
        = Inl (TypeError ''awardTokensToBalance: minerId must be a non-empty string''))
   \<and> (b \<noteq> JSUndefined \<and> (\<forall>r. b \<noteq> JSObject r) \<longrightarrow>
      (\<exists>e. awardTokensToBalance h minerId b sc = Inl (TypeError e)))
   \<and> ((\<forall>items. inputs \<noteq> JSObject (Some items)) \<longrightarrow>
      mixRandomness H256 rnd inputs opts
        = Inl (Error ''inputs must be an array of Buffers or strings''))"
  using computeReward_invalid [of v] awardTokensToBalance_minerId [of minerId h b sc]
    awardTokensToBalance_balances [of b h minerId sc]
    mixRandomness_not_array [of inputs H256 rnd opts]
  by blast

theorem input_errors_rejected_witness:
  "computeReward (JSStr ''81'' :: unit jsval)
     = Inl (TypeError ''computeReward: score must be a valid number'')
   \<and> awardTokensToBalance [Map.empty] (JSStr [] :: unit jsval) (JSObject 0)
       (JSNum (Fin 90) :: unit jsval)
     = Inl (TypeError ''awardTokensToBalance: minerId must be a non-empty string'')
   \<and> (\<exists>e. awardTokensToBalance [] (JSStr ''miner1'' :: unit jsval) JSNull
              (JSNum (Fin 90) :: unit jsval) = Inl (TypeError e))
   \<and> mixRandomness (\<lambda>b. []) (\<lambda>i. 0) (JSStr ''abc'') no_opts
     = Inl (Error ''inputs must be an array of Buffers or strings'')"
  using input_errors_rejected [of "JSStr ''81'' :: unit jsval" "JSStr [] :: unit jsval"
      "[Map.empty]" "JSObject 0" "JSNum (Fin 90) :: unit jsval" "JSStr ''abc''"
      "\<lambda>b. []" "\<lambda>i. 0" no_opts]
    input_errors_rejected [of "JSStr ''81'' :: unit jsval" "JSStr ''miner1'' :: unit jsval"
      "[]" JSNull "JSNum (Fin 90) :: unit jsval" "JSStr ''abc''"
      "\<lambda>b. []" "\<lambda>i. 0" no_opts]
  by simp

text \<open>
  Claim C8 as stated fails for the balances value \<open>undefined\<close>: it is not an object, and
  the call returns a result instead of throwing, the default \<open>{}\<close> taking its place.
\<close>

theorem undefined_balances_counterexample:
  "\<not> isl (awardTokensToBalance [] (JSStr ''miner1'' :: unit jsval) JSUndefined
            (JSNum (Fin 90) :: unit jsval))"
  by (simp add: awardTokensToBalance_def alloc_def computeReward_Fin Let_def)

text \<open>The draw of the shuffle stays inside the part of the array still to be placed.\<close>

lemma randomInt_range: "randomInt r 0 (i + 1) \<le> i"
  by (simp add: randomInt_def)

lemma shuffle_loop_mset:
  "k < length arr \<Longrightarrow> mset (shuffle_loop rnd k arr) = mset arr"
proof (induction k arbitrary: arr)
  case 0
  show ?case by simp
next
  case (Suc k)
  let ?i = "Suc k"
  let ?j = "randomInt (rnd ?i) 0 (?i + 1)"
  have j: "?j < length arr"
    using randomInt_range [of "rnd ?i" ?i] Suc.prems by simp
  have swapped: "mset (arr[?i := arr ! ?j, ?j := arr ! ?i]) = mset arr"
    using mset_swap [OF j Suc.prems] .
  have "k < length (arr[?i := arr ! ?j, ?j := arr ! ?i])"
    using Suc.prems by simp
  from Suc.IH [OF this] swapped show ?case
    by (simp add: Let_def)
qed

lemma secureShuffle_mset: "mset (secureShuffle rnd buffers) = mset buffers"
proof (cases buffers)
  case Nil
  then show ?thesis by (simp add: secureShuffle_def)
next
  case (Cons b bs)
  then have "length buffers - 1 < length buffers" by simp
  then show ?thesis
    unfolding secureShuffle_def by (rule shuffle_loop_mset)
qed

text \<open>An optional field that is absent, or an empty string, adds no byte.\<close>

lemma opt_buffer_eq:
  "opt_buffer x = (case x of None \<Rightarrow> [] | Some i \<Rightarrow> toBuffer i)"
proof (cases x)
  case None
  then show ?thesis by (simp add: opt_buffer_def)
next
  case (Some i)
  then show ?thesis
    by (cases i) (simp_all add: opt_buffer_def hexRegex_test_def utf8_def)
qed

lemma mix_concatenated_eq:
  "mix_concatenated rnd items opts =
     (case salt opts of None \<Rightarrow> [] | Some x \<Rightarrow> toBuffer x)
     @ (case roundId opts of None \<Rightarrow> [] | Some rid \<Rightarrow> toBuffer (ItemString rid))
     @ (case prevHash opts of None \<Rightarrow> [] | Some x \<Rightarrow> toBuffer x)
     @ concat (mix_shuffled rnd items)"
  by (simp add: mix_concatenated_def Let_def opt_buffer_eq)

lemma mixRandomness_array:
  "mixRandomness H256 rnd (JSObject (Some items)) opts
     = Inr \<lparr>finalHash = H256 (mix_concatenated rnd items opts),
            shuffledHex = map toHex (mix_shuffled rnd items),
            concatenatedHex = toHex (mix_concatenated rnd items opts),
            preImageHex = toHex (mix_concatenated rnd items opts)\<rparr>"
  by (simp add: mixRandomness_def Let_def sha256Hex_def)

text \<open>
  Claim C5. For every inputs array and every sequence of draws, the shuffled list is a
  permutation of the normalized input buffers, its concatenation is the tail of the
  pre-image that is hashed, and \<open>shuffledHex\<close> lists the hex encodings of the shuffled
  buffers in their order.
\<close>

theorem mixRandomness_permutation:
  "mset (mix_shuffled rnd items) = mset (map toBuffer items)
   \<and> (\<exists>res metadata.
         mixRandomness H256 rnd (JSObject (Some items)) opts = Inr res
         \<and> shuffledHex res = map toHex (mix_shuffled rnd items)
         \<and> finalHash res = H256 (metadata @ concat (mix_shuffled rnd items))
         \<and> preImageHex res = toHex (metadata @ concat (mix_shuffled rnd items)))"
proof -
  have "mset (mix_shuffled rnd items) = mset (map toBuffer items)"
    by (simp add: mix_shuffled_def secureShuffle_mset)
  moreover have "\<exists>metadata. mix_concatenated rnd items opts
                    = metadata @ concat (mix_shuffled rnd items)"
    unfolding mix_concatenated_eq by (metis append.assoc)
  ultimately show ?thesis
    by (auto simp: mixRandomness_array)
qed

theorem mixRandomness_permutation_witness:
  "mset (mix_shuffled (\<lambda>i. 0) [ItemString ''00ff'', ItemBuffer [1, 2], ItemString ''hi''])
     = {#[0, 255], [1, 2], [104, 105]#}
   \<and> (\<exists>res. mixRandomness toHex (\<lambda>i. 0)
           (JSObject (Some [ItemString ''00ff'', ItemBuffer [1, 2], ItemString ''hi'']))
           no_opts = Inr res
         \<and> shuffledHex res = [''0102'', ''6869'', ''00ff''])"
proof -
  have inputs: "map toBuffer [ItemString ''00ff'', ItemBuffer [1, 2], ItemString ''hi'']
                  = [[0, 255], [1, 2], [104, 105]]"
    by code_simp
  have hex: "map toHex (mix_shuffled (\<lambda>i. 0)
                 [ItemString ''00ff'', ItemBuffer [1, 2], ItemString ''hi''])
               = [''0102'', ''6869'', ''00ff'']"
    by code_simp
  from mixRandomness_permutation [of "\<lambda>i. 0"
      "[ItemString ''00ff'', ItemBuffer [1, 2], ItemString ''hi'']" toHex no_opts]
  show ?thesis
    unfolding inputs hex by auto
qed

text \<open>
  Claim C2, as amended. In \<open>mixRandomness\<close> the pre-image that is hashed is the salt
  bytes, then the round-id bytes, then the previous-hash bytes, each left out when
  absent, then the concatenation of the shuffled contributions, which are a permutation
  of the normalized inputs. The orchestrator passes no options: the previous round's
  hash and the round id are the first two elements of its inputs array, so what it has
  hashed is the concatenation of a permutation of these two and the \<open>E_i\<close> values, with
  no fixed prefix.
\<close>

theorem mixRandomness_preimage:
  "(\<exists>res. mixRandomness H256 rnd (JSObject (Some items)) opts = Inr res
      \<and> finalHash res
          = H256 ((case salt opts of None \<Rightarrow> [] | Some x \<Rightarrow> toBuffer x)
                  @ (case roundId opts of None \<Rightarrow> [] | Some rid \<Rightarrow> toBuffer (ItemString rid))
                  @ (case prevHash opts of None \<Rightarrow> [] | Some x \<Rightarrow> toBuffer x)
                  @ concat (mix_shuffled rnd items))
      \<and> preImageHex res
          = toHex ((case salt opts of None \<Rightarrow> [] | Some x \<Rightarrow> toBuffer x)
                   @ (case roundId opts of None \<Rightarrow> [] | Some rid \<Rightarrow> toBuffer (ItemString rid))
                   @ (case prevHash opts of None \<Rightarrow> [] | Some x \<Rightarrow> toBuffer x)
                   @ concat (mix_shuffled rnd items)))
   \<and> mset (mix_shuffled rnd items) = mset (map toBuffer items)
   \<and> (\<exists>res. round_mix H256 rnd prevRoundHash rid E_list = Inr res
      \<and> finalHash res
          = H256 (concat (mix_shuffled rnd
                    (ItemString prevRoundHash # ItemString rid # map ItemString E_list)))
      \<and> preImageHex res
          = toHex (concat (mix_shuffled rnd
                     (ItemString prevRoundHash # ItemString rid # map ItemString E_list))))
   \<and> mset (mix_shuffled rnd (ItemString prevRoundHash # ItemString rid # map ItemString E_list))
       = mset (map toBuffer
                 (ItemString prevRoundHash # ItemString rid # map ItemString E_list))"
  by (simp add: mixRandomness_array mix_concatenated_eq round_mix_def no_opts_def
        mix_shuffled_def secureShuffle_mset)

theorem mixRandomness_preimage_witness:
  "(\<exists>res. mixRandomness toHex (\<lambda>i. 0)
            (JSObject (Some [ItemString ''00ff'', ItemBuffer [1, 2]]))
            \<lparr>salt = Some (ItemBuffer [9]), roundId = Some ''r1'', prevHash = None\<rparr> = Inr res
      \<and> preImageHex res = ''097231010200ff'')
   \<and> (\<exists>res. round_mix toHex (\<lambda>i. 0) ''00'' ''round-1'' [''ff''] = Inr res
      \<and> preImageHex res = ''726f756e642d31ff00'')"
proof -
  have a: "toHex ((case Some (ItemBuffer [9]) of None \<Rightarrow> [] | Some x \<Rightarrow> toBuffer x)
             @ (case Some ''r1'' of None \<Rightarrow> [] | Some rid \<Rightarrow> toBuffer (ItemString rid))
             @ (case None of None \<Rightarrow> [] | Some x \<Rightarrow> toBuffer x)
             @ concat (mix_shuffled (\<lambda>i. 0) [ItemString ''00ff'', ItemBuffer [1, 2]]))
           = ''097231010200ff''"
    by code_simp
  have b: "toHex (concat (mix_shuffled (\<lambda>i. 0)
              (ItemString ''00'' # ItemString ''round-1'' # map ItemString [''ff''])))
           = ''726f756e642d31ff00''"
    by code_simp
  from mixRandomness_preimage [of toHex "\<lambda>i. 0"
      "[ItemString ''00ff'', ItemBuffer [1, 2]]"
      "\<lparr>salt = Some (ItemBuffer [9]), roundId = Some ''r1'', prevHash = None\<rparr>"
      "''00''" "''round-1''" "[''ff'']"]
  obtain res1 res2 where
    "mixRandomness toHex (\<lambda>i. 0) (JSObject (Some [ItemString ''00ff'', ItemBuffer [1, 2]]))
       \<lparr>salt = Some (ItemBuffer [9]), roundId = Some ''r1'', prevHash = None\<rparr> = Inr res1"
    "preImageHex res1
       = toHex ((case Some (ItemBuffer [9]) of None \<Rightarrow> [] | Some x \<Rightarrow> toBuffer x)
             @ (case Some ''r1'' of None \<Rightarrow> [] | Some rid \<Rightarrow> toBuffer (ItemString rid))
             @ (case None of None \<Rightarrow> [] | Some x \<Rightarrow> toBuffer x)
             @ concat (mix_shuffled (\<lambda>i. 0) [ItemString ''00ff'', ItemBuffer [1, 2]]))"
    "round_mix toHex (\<lambda>i. 0) ''00'' ''round-1'' [''ff''] = Inr res2"
    "preImageHex res2
       = toHex (concat (mix_shuffled (\<lambda>i. 0)
              (ItemString ''00'' # ItemString ''round-1'' # map ItemString [''ff''])))"
    by (auto simp del: toBuffer.simps)
  then show ?thesis
    unfolding a b by blast
qed

text \<open>
  Claim C2 as stated fails in the orchestrator's use: with the previous hash \<open>00\<close>, the
  round id \<open>round-1\<close>, one \<open>E_i\<close> value \<open>ff\<close> and every draw 0, the pre-image is the
  round id, then \<open>E_i\<close>, then the previous hash, not the round id and the previous hash
  followed by the contributions.
\<close>

theorem orchestrator_metadata_counterexample:
  "map_sum id preImageHex (round_mix toHex (\<lambda>i. 0) ''00'' ''round-1'' [''ff''])
     \<noteq> Inr (toHex (toBuffer (ItemString ''round-1'') @ toBuffer (ItemString ''00'')
                    @ concat (map toBuffer [ItemString ''ff''])))"
proof -
  have "map_sum id preImageHex (round_mix toHex (\<lambda>i. 0) ''00'' ''round-1'' [''ff''])
          = Inr ''726f756e642d31ff00''"
    by code_simp
  moreover have "toHex (toBuffer (ItemString ''round-1'') @ toBuffer (ItemString ''00'')
                    @ concat (map toBuffer [ItemString ''ff''])) = ''726f756e642d3100ff''"
    by code_simp
  ultimately show ?thesis by simp
qed


section \<open>Properties of the CheatDetector\<close>

lemma cnt_bump: "cnt (bump f x) b = (if b = x then cnt f x + 1 else cnt f b)"
  by (simp add: cnt_def bump_def)

lemma the_bump: "the (bump f x x) = cnt f x + 1"
  by (simp add: cnt_def bump_def)

text \<open>
  The loop invariant: no count seen so far exceeds half the length. If some byte's count
  so far and its occurrences in the rest together exceed half the length, the loop
  returns from inside.
\<close>

lemma repetition_loop_flags:
  "\<forall>b. \<not> real (cnt f b) > real n * 0.5 \<Longrightarrow>
   real (cnt f b0 + count_list rest b0) > real n * 0.5 \<Longrightarrow>
   repetition_loop n f rest"
proof (induction rest arbitrary: f)
  case Nil
  then show ?case by simp
next
  case (Cons x rest)
  show ?case
  proof (cases "real (cnt f x + 1) > real n * 0.5")
    case True
    then show ?thesis by (simp add: Let_def the_bump)
  next
    case False
    have inv: "\<forall>b. \<not> real (cnt (bump f x) b) > real n * 0.5"
      using False Cons.prems(1) by (simp add: cnt_bump)
    have "cnt (bump f x) b0 + count_list rest b0 = cnt f b0 + count_list (x # rest) b0"
      by (simp add: cnt_bump)
    with Cons.prems(2) have "real (cnt (bump f x) b0 + count_list rest b0) > real n * 0.5"
      by simp
    from Cons.IH [OF inv this] False show ?thesis
      by (simp add: Let_def the_bump)
  qed
qed

lemma repetition_loop_majority:
  assumes "real (count_list buf b) > real (length buf) * 0.5"
  shows "repetition_loop (length buf) Map.empty buf"
proof -
  have "\<forall>b. \<not> real (cnt Map.empty b) > real (length buf) * 0.5"
    by (simp add: cnt_def)
  moreover have "real (cnt Map.empty b + count_list buf b) > real (length buf) * 0.5"
    using assms by (simp add: cnt_def)
  ultimately show ?thesis by (rule repetition_loop_flags)
qed

lemma reason_mentions_repeated:
  "sublist ''repeated'' ''Too many repeated values (low randomness)''"
proof -
  have "''Too many repeated values (low randomness)''
          = ''Too many '' @ ''repeated'' @ '' values (low randomness)''"
    by simp
  then show ?thesis unfolding sublist_def by blast
qed

lemma count_list_replicate: "count_list (replicate n x) y = (if x = y then n else 0)"
  by (induction n) auto

text \<open>
  Claim C6. For every buffer in which the count of some byte value exceeds half the
  buffer's length, \<open>detectCheating\<close> returns \<open>cheated = true\<close> with the reason of the
  repetition check, which contains \<open>repeated\<close>, whatever the previous round's buffer and
  the entropy are: the repetition check is the first to match. So it is for every buffer
  of 1000 bytes in which the byte 0x41 occurs 600 times.
\<close>

theorem detectCheating_repetition:
  "(real (count_list buf b) > real (length buf) * 0.5 \<longrightarrow>
      detectCheating toFixed buf previous
        = \<lparr>cheated = True,
           cheat_reason = Some ''Too many repeated values (low randomness)''\<rparr>)
   \<and> (length buf = 1000 \<and> count_list buf 0x41 = 600 \<longrightarrow>
      detectCheating toFixed buf previous
        = \<lparr>cheated = True,
           cheat_reason = Some ''Too many repeated values (low randomness)''\<rparr>)
   \<and> sublist ''repeated'' ''Too many repeated values (low randomness)''"
proof -
  have general: "detectCheating toFixed buf previous
        = \<lparr>cheated = True,
           cheat_reason = Some ''Too many repeated values (low randomness)''\<rparr>"
    if "real (count_list buf c) > real (length buf) * 0.5" for c
    using repetition_loop_majority [OF that] by (simp add: detectCheating_def)
  have "real (count_list buf 0x41) > real (length buf) * 0.5"
    if "length buf = 1000 \<and> count_list buf 0x41 = 600"
    using that by simp
  with general reason_mentions_repeated show ?thesis by blast
qed

theorem detectCheating_repetition_witness:
  "detectCheating (\<lambda>x d. ''0.00'') (replicate 600 0x41 @ replicate 400 0x42)
       (Some (replicate 600 0x41 @ replicate 400 0x42))
     = \<lparr>cheated = True, cheat_reason = Some ''Too many repeated values (low randomness)''\<rparr>
   \<and> detectCheating (\<lambda>x d. ''0.00'') [0x07, 0x07, 0x09] None
     = \<lparr>cheated = True, cheat_reason = Some ''Too many repeated values (low randomness)''\<rparr>"
  using detectCheating_repetition [of "replicate 600 0x41 @ replicate 400 0x42" "0x41"
      "\<lambda>x d. ''0.00''" "Some (replicate 600 0x41 @ replicate 400 0x42)"]
    detectCheating_repetition [of "[0x07, 0x07, 0x09]" "0x07" "\<lambda>x d. ''0.00''" None]
  by (simp add: count_list_replicate)

lemma calculateEntropy_empty: "calculateEntropy [] = 0"
  by (simp add: calculateEntropy_def Object_values_def List.map_filter_def)

text \<open>
  Claim C10. On an empty buffer, with or without a previous round's buffer,
  \<open>detectCheating\<close> returns a result, \<open>cheated = true\<close> with a reason that contains
  \<open>Entropy too low\<close>: the entropy of the empty buffer is 0, below 4.0.
\<close>

theorem detectCheating_empty_buffer:
  "calculateEntropy [] = 0
   \<and> detectCheating toFixed [] previous
       = \<lparr>cheated = True,
          cheat_reason = Some (''Entropy too low ('' @ toFixed 0 2 @ '')'')\<rparr>
   \<and> sublist ''Entropy too low'' (''Entropy too low ('' @ toFixed 0 2 @ '')'')"
proof -
  have "detectCheating toFixed [] previous
       = \<lparr>cheated = True,
          cheat_reason = Some (''Entropy too low ('' @ toFixed 0 2 @ '')'')\<rparr>"
    by (cases previous)
       (simp_all add: detectCheating_def entropy_check_def calculateEntropy_empty
          bufferSimilarity_def num_greater_def)
  moreover have "''Entropy too low ('' @ toFixed 0 2 @ '')''
                   = [] @ ''Entropy too low'' @ ('' ('' @ toFixed 0 2 @ '')'')"
    by simp
  then have "sublist ''Entropy too low'' (''Entropy too low ('' @ toFixed 0 2 @ '')'')"
    unfolding sublist_def by blast
  ultimately show ?thesis
    using calculateEntropy_empty by blast
qed

theorem detectCheating_empty_buffer_witness:
  "detectCheating (\<lambda>x d. ''0.00'') [] (Some [0x01, 0x02])
     = \<lparr>cheated = True, cheat_reason = Some ''Entropy too low (0.00)''\<rparr>
   \<and> detectCheating (\<lambda>x d. ''0.00'') [] None
     = \<lparr>cheated = True, cheat_reason = Some ''Entropy too low (0.00)''\<rparr>"
  using detectCheating_empty_buffer [of "\<lambda>x d. ''0.00''" "Some [0x01, 0x02]"]
    detectCheating_empty_buffer [of "\<lambda>x d. ''0.00''" None]
  by simp


section \<open>Properties of the UniquenessScorer\<close>

text \<open>
  Claim C7. When the contribution set is empty (an empty array, an array of \<open>null\<close> and
  \<open>undefined\<close> only, or \<open>null\<close> or \<open>undefined\<close> itself), \<open>computeUniquenessScore\<close>
  returns a result and does not throw: the score is 0, the category \<open>Low\<close>, and the four
  sub-scores are 0.
\<close>

theorem computeUniquenessScore_empty:
  assumes "allRandomness = JSUndefined \<or> allRandomness = JSNull
     \<or> (\<exists>a. allRandomness = JSObject (UArray a)
           \<and> (\<forall>x\<in>set a. x = JSNull \<or> x = JSUndefined))"
  shows "\<exists>r. computeUniquenessScore Buffer_from fix4 allRandomness options = Inr r
     \<and> u_score r = 0 \<and> u_category r = ''Low''
     \<and> entropyNorm (u_breakdown r) = 0 \<and> nonRepeatNorm (u_breakdown r) = 0
     \<and> amountNorm (u_breakdown r) = 0 \<and> variationNorm (u_breakdown r) = 0"
  using assms by (auto simp: computeUniquenessScore_def Let_def filter_empty_conv)

theorem computeUniquenessScore_empty_witness:
  "(\<exists>r. computeUniquenessScore (\<lambda>a. []) (\<lambda>x. x) (JSObject (UArray [])) default_options = Inr r
      \<and> u_score r = 0 \<and> u_category r = ''Low''
      \<and> entropyNorm (u_breakdown r) = 0 \<and> nonRepeatNorm (u_breakdown r) = 0
      \<and> amountNorm (u_breakdown r) = 0 \<and> variationNorm (u_breakdown r) = 0)
   \<and> (\<exists>r. computeUniquenessScore (\<lambda>a. []) (\<lambda>x. x) (JSObject (UArray [JSNull, JSUndefined]))
            default_options = Inr r
      \<and> u_score r = 0 \<and> u_category r = ''Low''
      \<and> entropyNorm (u_breakdown r) = 0 \<and> nonRepeatNorm (u_breakdown r) = 0
      \<and> amountNorm (u_breakdown r) = 0 \<and> variationNorm (u_breakdown r) = 0)
   \<and> (\<exists>r. computeUniquenessScore (\<lambda>a. []) (\<lambda>x. x) JSNull default_options = Inr r
      \<and> u_score r = 0 \<and> u_category r = ''Low''
      \<and> entropyNorm (u_breakdown r) = 0 \<and> nonRepeatNorm (u_breakdown r) = 0
      \<and> amountNorm (u_breakdown r) = 0 \<and> variationNorm (u_breakdown r) = 0)"
proof -
  have e1: "JSObject (UArray []) = JSUndefined \<or> JSObject (UArray []) = JSNull
     \<or> (\<exists>a. JSObject (UArray []) = JSObject (UArray a)
           \<and> (\<forall>x\<in>set a. x = JSNull \<or> x = JSUndefined))"
    by simp
  have e2: "JSObject (UArray [JSNull, JSUndefined]) = JSUndefined
     \<or> JSObject (UArray [JSNull, JSUndefined]) = JSNull
     \<or> (\<exists>a. JSObject (UArray [JSNull, JSUndefined]) = JSObject (UArray a)
           \<and> (\<forall>x\<in>set a. x = JSNull \<or> x = JSUndefined))"
    by simp
  have e3: "(JSNull :: uobj jsval) = JSUndefined \<or> (JSNull :: uobj jsval) = JSNull
     \<or> (\<exists>a. (JSNull :: uobj jsval) = JSObject (UArray a)
           \<and> (\<forall>x\<in>set a. x = JSNull \<or> x = JSUndefined))"
    by simp
  from computeUniquenessScore_empty [OF e1] computeUniquenessScore_empty [OF e2]
    computeUniquenessScore_empty [OF e3]
  show ?thesis by blast
qed


section \<open>Properties of the commitment\<close>








section \<open>Properties of the RoundOrchestrator\<close>

text \<open>
  Whatever the modules export, no run returns a round record: the seed is a promise,
  and calling \<open>slice\<close> on it throws.
\<close>

lemma runRound_with_no_record:
  "runRound_with ms H256 Buffer_from fix4 env \<noteq> Inr (Some r)"
  by (auto simp: runRound_with_def promise_slice_def Let_def split: option.splits sum.splits)

text \<open>The local verification recomputes the hash of the same string, so it cannot fail.\<close>

lemma runRound_with_no_abort:
  "runRound_with ms H256 Buffer_from fix4 env \<noteq> Inr None"
  by (auto simp: runRound_with_def promise_slice_def Let_def buildCommit_def verifyCommit_def
      split: option.splits sum.splits)

text \<open>
  With the exports of rewardEngine.js, the statements after the seed would award 0
  tokens.
\<close>

lemma finishRound_awarded:
  "finishRound repo_modules Buffer_from fix4 env E_i commit roundSeed = Inr (Some r)
     \<Longrightarrow> rec_awarded r = 0"
  by (auto simp: finishRound_def repo_modules_def Let_def split: sum.splits)

text \<open>
  Claim C1, on the code: with the four collector buffers available, every run of
  \<open>runRound\<close> ends in a TypeError at the computation of \<open>E_i\<close>, since hash.js exports no
  \<open>sha512\<close>. No run returns a round record, and no run ends by a failed verification of
  the commitment.
\<close>

theorem runRound_throws:
  "runRound H256 Buffer_from fix4 env
     = Inl (TypeError ''hashUtils.sha512 is not a function'')
   \<and> ''sha512'' \<notin> set hash_exports"
  by (simp add: runRound_def runRound_with_def repo_modules_def Let_def hash_exports_def)

end
